theory Spec2Isabelle
  imports Complex_Main "HOL-Library.Word"
begin

section \<open>JavaScript numbers\<close>

text \<open>
  The client (\<^verbatim>\<open>mcp-app.ts\<close>) computes the display rectangle with JavaScript
  numbers. A number is modelled as an exact rational, or one of the three special
  values of IEEE-754 that division by zero produces. The rounding of a double to 53
  bits and the sign of zero are not modelled: arithmetic on finite values is exact.
  No operation raises: division by zero yields an infinity or \<open>NaN\<close>.
\<close>

datatype jsnum = Fin rat | PosInf | NegInf | NaN

fun jneg :: "jsnum \<Rightarrow> jsnum" where
  "jneg (Fin a) = Fin (- a)"
| "jneg PosInf = NegInf"
| "jneg NegInf = PosInf"
| "jneg NaN = NaN"

fun jadd :: "jsnum \<Rightarrow> jsnum \<Rightarrow> jsnum" where
  "jadd NaN _ = NaN"
| "jadd _ NaN = NaN"
| "jadd (Fin a) (Fin b) = Fin (a + b)"
| "jadd PosInf NegInf = NaN"
| "jadd NegInf PosInf = NaN"
| "jadd PosInf _ = PosInf"
| "jadd NegInf _ = NegInf"
| "jadd (Fin a) b = b"

definition jsub :: "jsnum \<Rightarrow> jsnum \<Rightarrow> jsnum" where
  "jsub a b = jadd a (jneg b)"

text \<open>The sign of a number that is not \<open>NaN\<close>: \<open>-1\<close>, \<open>0\<close> or \<open>1\<close>.\<close>

fun jsign :: "jsnum \<Rightarrow> int" where
  "jsign (Fin a) = (if a < 0 then - 1 else if a = 0 then 0 else 1)"
| "jsign PosInf = 1"
| "jsign NegInf = - 1"
| "jsign NaN = 0"

definition signedInf :: "int \<Rightarrow> jsnum" where
  "signedInf s = (if s = 0 then NaN else if s < 0 then NegInf else PosInf)"

fun jmul :: "jsnum \<Rightarrow> jsnum \<Rightarrow> jsnum" where
  "jmul NaN _ = NaN"
| "jmul _ NaN = NaN"
| "jmul (Fin a) (Fin b) = Fin (a * b)"
| "jmul a b = signedInf (jsign a * jsign b)"

fun jdiv :: "jsnum \<Rightarrow> jsnum \<Rightarrow> jsnum" where
  "jdiv NaN _ = NaN"
| "jdiv _ NaN = NaN"
| "jdiv (Fin a) (Fin b) = (if b = 0 then signedInf (jsign (Fin a)) else Fin (a / b))"
| "jdiv (Fin a) _ = Fin 0"
| "jdiv a (Fin b) = signedInf (jsign a * (if b < 0 then - 1 else 1))"
| "jdiv _ _ = NaN"

text \<open>Comparisons: every comparison with \<open>NaN\<close> is false.\<close>

fun jlt :: "jsnum \<Rightarrow> jsnum \<Rightarrow> bool" where
  "jlt NaN _ = False"
| "jlt _ NaN = False"
| "jlt (Fin a) (Fin b) = (a < b)"
| "jlt NegInf b = (b \<noteq> NegInf)"
| "jlt a PosInf = (a \<noteq> PosInf)"
| "jlt _ _ = False"

fun jge :: "jsnum \<Rightarrow> jsnum \<Rightarrow> bool" where
  "jge NaN _ = False"
| "jge _ NaN = False"
| "jge a b = (\<not> jlt a b)"

text \<open>\<^verbatim>\<open>Math.min\<close>: \<open>NaN\<close> when an argument is \<open>NaN\<close>, else the least one.\<close>

fun jmin :: "jsnum \<Rightarrow> jsnum \<Rightarrow> jsnum" where
  "jmin NaN _ = NaN"
| "jmin _ NaN = NaN"
| "jmin a b = (if jlt b a then b else a)"

text \<open>\<^verbatim>\<open>Math.round\<close>: the nearest integer, a tie going up.\<close>

definition roundHalfUp :: "rat \<Rightarrow> int" where
  "roundHalfUp q = \<lfloor>q + 1 / 2\<rfloor>"

fun jround :: "jsnum \<Rightarrow> jsnum" where
  "jround (Fin a) = Fin (of_int (roundHalfUp a))"
| "jround a = a"

definition ofNat :: "nat \<Rightarrow> jsnum" where
  "ofNat n = Fin (of_nat n)"

section \<open>The display transform\<close>

text \<open>
  \<^verbatim>\<open>resizeCanvases\<close> (lines 55-65) and \<^verbatim>\<open>generateMaskDataUrl\<close> (lines 295-301)
  compute the fitted rectangle with the same five statements:
  \<^verbatim>\<open>
  const scale = Math.min(wrapperW / imgW, wrapperH / imgH, 1);
  const drawW = Math.round(imgW * scale);
  const drawH = Math.round(imgH * scale);
  const offsetX = Math.round((wrapperW - drawW) / 2);
  const offsetY = Math.round((wrapperH - drawH) / 2);
  \<close>
  \<open>clientWidth\<close>, \<open>clientHeight\<close>, \<open>naturalWidth\<close> and \<open>naturalHeight\<close> are
  non-negative integers.
\<close>

record DisplayRect =
  scale :: jsnum
  drawW :: jsnum
  drawH :: jsnum
  offsetX :: jsnum
  offsetY :: jsnum

definition displayTransform :: "nat \<Rightarrow> nat \<Rightarrow> nat \<Rightarrow> nat \<Rightarrow> DisplayRect" where
  "displayTransform wrapperW wrapperH imgW imgH =
     (let scale = jmin (jmin (jdiv (ofNat wrapperW) (ofNat imgW))
                             (jdiv (ofNat wrapperH) (ofNat imgH))) (Fin 1);
          drawW = jround (jmul (ofNat imgW) scale);
          drawH = jround (jmul (ofNat imgH) scale);
          offsetX = jround (jdiv (jsub (ofNat wrapperW) drawW) (Fin 2));
          offsetY = jround (jdiv (jsub (ofNat wrapperH) drawH) (Fin 2))
      in \<lparr>scale = scale, drawW = drawW, drawH = drawH,
          offsetX = offsetX, offsetY = offsetY\<rparr>)"



section \<open>Canvases and the editor state\<close>

type_synonym byte = "8 word"

text \<open>
  An exception value carries its message. A \<open>DOMException\<close> is named by its
  \<open>name\<close> (its message text is the browser's).
\<close>

datatype exn = JsError string | DOMException string

fun message :: "exn \<Rightarrow> string" where
  "message (JsError m) = m"
| "message (DOMException n) = n"

text \<open>
  A canvas bitmap as \<^verbatim>\<open>getImageData\<close> shows it: \<open>cwidth * cheight\<close> pixels of four
  bytes (R, G, B, A), row by row.
\<close>

record canvas =
  cwidth :: nat
  cheight :: nat
  cdata :: "byte list"

text \<open>Byte \<open>k\<close> of the pixel at \<open>(x, y)\<close>; transparent black outside the bitmap.\<close>

definition canvasByte :: "canvas \<Rightarrow> nat \<Rightarrow> nat \<Rightarrow> nat \<Rightarrow> byte" where
  "canvasByte c x y k =
     (if x < cwidth c \<and> y < cheight c \<and> (y * cwidth c + x) * 4 + k < length (cdata c)
      then cdata c ! ((y * cwidth c + x) * 4 + k) else 0)"

text \<open>
  \<^verbatim>\<open>ctx.getImageData(0, 0, sw, sh)\<close>: raises \<open>IndexSizeError\<close> when \<open>sw\<close> or
  \<open>sh\<close> is zero; otherwise \<open>sw * sh\<close> pixels, those outside the canvas transparent
  black.
\<close>

definition getImageData :: "canvas \<Rightarrow> nat \<Rightarrow> nat \<Rightarrow> exn + byte list" where
  "getImageData c sw sh =
     (if sw = 0 \<or> sh = 0 then Inl (DOMException ''IndexSizeError'')
      else Inr (map (\<lambda>i. canvasByte c ((i div 4) mod sw) ((i div 4) div sw) (i mod 4))
                    [0..<sw * sh * 4]))"

text \<open>
  \<^verbatim>\<open>tempCtx.fillStyle = "#000000"; tempCtx.fillRect(0, 0, w, h)\<close> on a new canvas of
  size \<open>w\<close> by \<open>h\<close>: every pixel is opaque black.
\<close>

definition blackCanvas :: "nat \<Rightarrow> nat \<Rightarrow> canvas" where
  "blackCanvas w h =
     \<lparr>cwidth = w, cheight = h,
      cdata = map (\<lambda>i. if i mod 4 = 3 then 255 else 0) [0..<w * h * 4]\<rparr>"

record image =
  naturalWidth :: nat
  naturalHeight :: nat

text \<open>
  The module's variables (lines 33-39) and the parts of the document the handlers read
  and write: the wrapper's client size, the mask canvas, the status bar, the confirm
  button, and the calls sent to the server with \<^verbatim>\<open>app.callServerTool\<close>.
\<close>

record toolCall =
  toolName :: string
  argMaskDataUrl :: string
  argOriginalFileName :: string

record editor =
  loadedImage :: "image option"
  originalFileName :: string
  isDrawing :: bool
  brushSize :: nat
  hasMaskContent :: bool
  currentImageRect :: "jsnum \<times> jsnum \<times> jsnum \<times> jsnum"
  clientWidth :: nat
  clientHeight :: nat
  maskCanvas :: canvas
  statusText :: string
  statusClass :: string
  confirmDisabled :: bool
  confirmText :: string
  serverCalls :: "toolCall list"

definition setStatus :: "string \<Rightarrow> string \<Rightarrow> editor \<Rightarrow> editor" where
  "setStatus msg type s =
     s\<lparr>statusText := msg,
       statusClass := ''status-bar'' @ (if type \<noteq> [] then '' '' @ type else [])\<rparr>"

section \<open>The mask rasterizer\<close>

text \<open>
  Reading a typed array at a number: the element when the number is an index of the
  array, \<open>undefined\<close> (\<open>None\<close>) otherwise.
\<close>

fun readAt :: "byte list \<Rightarrow> jsnum \<Rightarrow> byte option" where
  "readAt d (Fin q) =
     (if 0 \<le> q \<and> q = of_int \<lfloor>q\<rfloor> \<and> nat \<lfloor>q\<rfloor> < length d then Some (d ! nat \<lfloor>q\<rfloor>) else None)"
| "readAt d _ = None"

text \<open>
  The test of lines 311-322 for the native pixel \<open>(x, y)\<close>:
  \<^verbatim>\<open>
  const displayX = Math.round(x * scale + offsetX);
  const displayY = Math.round(y * scale + offsetY);
  if (displayX >= 0 && displayX < wrapperW && displayY >= 0 && displayY < wrapperH) {
    const maskIdx = (displayY * wrapperW + displayX) * 4;
    if (maskData.data[maskIdx + 3] > 0) { ... }
  \<close>
  \<open>undefined > 0\<close> is false.
\<close>

definition painted :: "DisplayRect \<Rightarrow> nat \<Rightarrow> nat \<Rightarrow> byte list \<Rightarrow> nat \<Rightarrow> nat \<Rightarrow> bool" where
  "painted r wrapperW wrapperH maskData x y =
     (let displayX = jround (jadd (jmul (ofNat x) (scale r)) (offsetX r));
          displayY = jround (jadd (jmul (ofNat y) (scale r)) (offsetY r))
      in if jge displayX (Fin 0) \<and> jlt displayX (ofNat wrapperW) \<and>
            jge displayY (Fin 0) \<and> jlt displayY (ofNat wrapperH)
         then (let maskIdx = jmul (jadd (jmul displayY (ofNat wrapperW)) displayX) (Fin 4)
               in case readAt maskData (jadd maskIdx (Fin 3)) of
                    None \<Rightarrow> False
                  | Some a \<Rightarrow> 0 < a)
         else False)"

text \<open>Lines 323-327; a write past the end of a typed array does nothing.\<close>

definition markWhite :: "nat \<Rightarrow> byte list \<Rightarrow> byte list" where
  "markWhite idx d = d[idx := 255, idx + 1 := 255, idx + 2 := 255, idx + 3 := 255]"

definition scanPixel ::
  "DisplayRect \<Rightarrow> nat \<Rightarrow> nat \<Rightarrow> byte list \<Rightarrow> nat \<Rightarrow> nat \<Rightarrow> nat \<Rightarrow> byte list \<Rightarrow> byte list" where
  "scanPixel r wrapperW wrapperH maskData w y x d =
     (if painted r wrapperW wrapperH maskData x y then markWhite ((y * w + x) * 4) d else d)"

text \<open>The inner loop over \<open>x\<close> and the outer loop over \<open>y\<close> (lines 308-331).\<close>

definition scanRow ::
  "DisplayRect \<Rightarrow> nat \<Rightarrow> nat \<Rightarrow> byte list \<Rightarrow> nat \<Rightarrow> nat \<Rightarrow> byte list \<Rightarrow> byte list" where
  "scanRow r wrapperW wrapperH maskData w y d =
     fold (scanPixel r wrapperW wrapperH maskData w y) [0..<w] d"

definition scanImage ::
  "DisplayRect \<Rightarrow> nat \<Rightarrow> nat \<Rightarrow> byte list \<Rightarrow> nat \<Rightarrow> nat \<Rightarrow> byte list \<Rightarrow> byte list" where
  "scanImage r wrapperW wrapperH maskData w h d =
     fold (scanRow r wrapperW wrapperH maskData w) [0..<h] d"

text \<open>
  \<^verbatim>\<open>generateMaskDataUrl\<close> up to \<^verbatim>\<open>tempCtx.putImageData\<close>: the bitmap of the
  temporary canvas, at the image's native size. The function reads the module's state
  and the document and writes only its own temporary canvas.
\<close>

definition nativeMask :: "editor \<Rightarrow> exn + canvas" where
  "nativeMask s =
     (case loadedImage s of
        None \<Rightarrow> Inl (JsError ''No image loaded'')
      | Some img \<Rightarrow>
          (let w = naturalWidth img; h = naturalHeight img;
               tempCanvas = blackCanvas w h;
               wrapperW = clientWidth s; wrapperH = clientHeight s;
               r = displayTransform wrapperW wrapperH w h
           in case getImageData (maskCanvas s) wrapperW wrapperH of
                Inl e \<Rightarrow> Inl e
              | Inr maskData \<Rightarrow>
                  (case getImageData tempCanvas w h of
                     Inl e \<Rightarrow> Inl e
                   | Inr tempImageData \<Rightarrow>
                       Inr (tempCanvas\<lparr>cdata :=
                              scanImage r wrapperW wrapperH maskData w h tempImageData\<rparr>))))"

text \<open>
  \<^verbatim>\<open>tempCanvas.toDataURL("image/png")\<close> is the browser's PNG encoder, a parameter
  of the model. The editor state is returned beside the result, as the caller finds it
  after the call.
\<close>

definition generateMaskDataUrl ::
  "(canvas \<Rightarrow> string) \<Rightarrow> editor \<Rightarrow> (exn + string) \<times> editor" where
  "generateMaskDataUrl toDataURL s =
     (case nativeMask s of Inl e \<Rightarrow> (Inl e, s) | Inr c \<Rightarrow> (Inr (toDataURL c), s))"

section \<open>Confirming the mask\<close>

text \<open>
  A tool result: the text of its one content item, the fields of
  \<open>structuredContent\<close> (absent for \<open>None\<close>) and \<open>isError\<close> (absent reads as false).
\<close>

record toolResult =
  contentText :: string
  structuredContent :: "(string \<times> string) list option"
  isError :: bool

text \<open>
  The click handler of the confirm button (lines 340-378). \<open>callServerTool\<close> is the
  host's answer to the call: a result, or a fault of the transport. The handler is
  taken as one step: events that arrive while it awaits the answer are not modelled.
  Reading \<open>filePath\<close> of an absent \<open>structuredContent\<close> raises a \<open>TypeError\<close>
  (its message is the browser's); an absent \<open>filePath\<close> prints as \<open>undefined\<close>.
\<close>

definition confirmClick ::
  "(canvas \<Rightarrow> string) \<Rightarrow> (toolCall \<Rightarrow> exn + toolResult) \<Rightarrow> editor \<Rightarrow> editor" where
  "confirmClick toDataURL callServerTool s =
     (if loadedImage s = None \<or> \<not> hasMaskContent s
      then setStatus ''Paint a selection on the image first'' ''error'' s
      else
        (let s1 = setStatus ''Generating mask...'' []
                    (s\<lparr>confirmDisabled := True, confirmText := ''Sending...''\<rparr>);
             s2 =
               (case generateMaskDataUrl toDataURL s1 of
                  (Inl e, s') \<Rightarrow> setStatus (''Error: '' @ message e) ''error'' s'
                | (Inr maskDataUrl, s') \<Rightarrow>
                    (let call = \<lparr>toolName = ''save-mask'', argMaskDataUrl = maskDataUrl,
                                 argOriginalFileName = originalFileName s'\<rparr>;
                         s3 = (setStatus ''Sending mask to server...'' [] s')
                                \<lparr>serverCalls := serverCalls s' @ [call]\<rparr>
                     in case callServerTool call of
                          Inl e \<Rightarrow> setStatus (''Error: '' @ message e) ''error'' s3
                        | Inr result \<Rightarrow>
                            if isError result
                            then setStatus ''Server error saving mask'' ''error'' s3
                            else (case structuredContent result of
                                    None \<Rightarrow>
                                      setStatus (''Error: '' @ message (JsError ''TypeError''))
                                        ''error'' s3
                                  | Some data \<Rightarrow>
                                      setStatus
                                        (''Mask saved: '' @
                                           (case map_of data ''filePath'' of
                                              None \<Rightarrow> ''undefined'' | Some p \<Rightarrow> p))
                                        ''success'' s3)))
         in s2\<lparr>confirmDisabled := False, confirmText := ''Confirm Mask''\<rparr>))"


section \<open>The server: strings and patterns\<close>

text \<open>
  A string is a list of 8-bit characters; code units above 255 are outside the model.
  \<^verbatim>\<open>\w\<close> is \<^verbatim>\<open>[A-Za-z0-9_]\<close>; \<^verbatim>\<open>.\<close> is every character but a line terminator
  (of the characters modelled: line feed and carriage return).
\<close>

definition isWordChar :: "char \<Rightarrow> bool" where
  "isWordChar c =
     (let n = (of_char c :: nat)
      in (65 \<le> n \<and> n \<le> 90) \<or> (97 \<le> n \<and> n \<le> 122) \<or> (48 \<le> n \<and> n \<le> 57) \<or> n = 95)"

definition isLineTerminator :: "char \<Rightarrow> bool" where
  "isLineTerminator c = ((of_char c :: nat) = 10 \<or> (of_char c :: nat) = 13)"

definition stripLiteral :: "string \<Rightarrow> string \<Rightarrow> string option" where
  "stripLiteral p s = (if take (length p) s = p then Some (drop (length p) s) else None)"

text \<open>
  \<^verbatim>\<open>/^data:image\/(\w+);base64,/\<close> at the start of a string: the group and the rest
  of the string. A word character is never \<^verbatim>\<open>;\<close>, so the group can only be the
  longest run of word characters.
\<close>

definition matchPrefix :: "string \<Rightarrow> (string \<times> string) option" where
  "matchPrefix s =
     (case stripLiteral ''data:image/'' s of
        None \<Rightarrow> None
      | Some r \<Rightarrow>
          (let ext = takeWhile isWordChar r
           in if ext = [] then None
              else (case stripLiteral '';base64,'' (dropWhile isWordChar r) of
                      None \<Rightarrow> None
                    | Some rest \<Rightarrow> Some (ext, rest))))"

text \<open>\<^verbatim>\<open>maskDataUrl.match(/^data:image\/(\w+);base64,(.+)$/)\<close>: the two groups.\<close>

definition matchDataUrl :: "string \<Rightarrow> (string \<times> string) option" where
  "matchDataUrl s =
     (case matchPrefix s of
        None \<Rightarrow> None
      | Some (ext, payload) \<Rightarrow>
          if payload \<noteq> [] \<and> list_all (\<lambda>c. \<not> isLineTerminator c) payload
          then Some (ext, payload) else None)"

text \<open>\<^verbatim>\<open>b64.replace(/^data:image\/\w+;base64,/, "")\<close>\<close>

definition stripPrefix :: "string \<Rightarrow> string" where
  "stripPrefix b64 = (case matchPrefix b64 of None \<Rightarrow> b64 | Some (ext, rest) \<Rightarrow> rest)"

text \<open>A non-negative integer in a template string: its decimal digits.\<close>

fun showNat :: "nat \<Rightarrow> string" where
  "showNat n =
     (if n < 10 then [''0123456789'' ! n]
      else showNat (n div 10) @ [''0123456789'' ! (n mod 10)])"

section \<open>The server: libraries and the file system\<close>

text \<open>
  The functions of Node and of \<open>sharp\<close> that the handlers call are parameters of the
  model:
  \<^item> \<open>fromBase64\<close> is \<^verbatim>\<open>Buffer.from(s, "base64")\<close>, \<open>toBase64\<close> is
    \<^verbatim>\<open>buf.toString("base64")\<close>;
  \<^item> \<open>parseName\<close> is \<^verbatim>\<open>path.parse(p).name\<close>, \<open>joinPath\<close> is \<^verbatim>\<open>path.join\<close>;
  \<^item> \<open>sharpMetadata\<close> is \<^verbatim>\<open>sharp(buf).metadata()\<close>, giving \<open>width\<close> and
    \<open>height\<close> (each may be \<open>undefined\<close>);
  \<^item> \<open>sharpRaw\<close> is \<^verbatim>\<open>sharp(buf).ensureAlpha().raw().toBuffer(...)\<close>;
  \<^item> \<open>sharpGray\<close> is \<^verbatim>\<open>sharp(buf).resize(width, height).grayscale().raw().toBuffer(...)\<close>;
  \<^item> \<open>sharpPng\<close> is \<^verbatim>\<open>sharp(data, {raw: {width, height, channels: 4}}).png().toBuffer()\<close>.
  A rejected promise is \<open>Inl\<close>.
\<close>

record libs =
  fromBase64 :: "string \<Rightarrow> byte list"
  toBase64 :: "byte list \<Rightarrow> string"
  parseName :: "string \<Rightarrow> string"
  joinPath :: "string \<Rightarrow> string \<Rightarrow> string"
  sharpMetadata :: "byte list \<Rightarrow> exn + (nat option \<times> nat option)"
  sharpRaw :: "byte list \<Rightarrow> exn + byte list"
  sharpGray :: "byte list \<Rightarrow> nat option \<Rightarrow> nat option \<Rightarrow> exn + byte list"
  sharpPng :: "byte list \<Rightarrow> nat option \<Rightarrow> nat option \<Rightarrow> exn + byte list"

text \<open>
  The file system: a path names a directory or a file with its bytes. Permissions,
  parent directories and quotas are not modelled. \<^verbatim>\<open>fs.mkdir(p, {recursive: true})\<close>
  accepts an existing directory and is rejected when \<open>p\<close> is a file;
  \<^verbatim>\<open>fs.writeFile(p, data)\<close> is rejected when \<open>p\<close> is a directory.
\<close>

datatype node = Dir | File "byte list"

type_synonym filesystem = "string \<Rightarrow> node option"

definition mkdirRecursive :: "filesystem \<Rightarrow> string \<Rightarrow> exn + filesystem" where
  "mkdirRecursive fs p =
     (case fs p of
        None \<Rightarrow> Inr (fs(p \<mapsto> Dir))
      | Some Dir \<Rightarrow> Inr fs
      | Some (File d) \<Rightarrow> Inl (JsError ''EEXIST''))"

definition writeFile :: "filesystem \<Rightarrow> string \<Rightarrow> byte list \<Rightarrow> exn + filesystem" where
  "writeFile fs p d =
     (case fs p of
        Some Dir \<Rightarrow> Inl (JsError ''EISDIR'')
      | _ \<Rightarrow> Inr (fs(p \<mapsto> File d)))"

section \<open>The save-mask tool\<close>

text \<open>
  The handler of \<^verbatim>\<open>save-mask\<close> (\<^verbatim>\<open>server.ts\<close>, lines 93-132). \<open>OUTPUT_DIR\<close> is the
  module's constant, \<open>now\<close> the value of \<^verbatim>\<open>Date.now()\<close>. The handler's promise is
  returned with the file system it leaves. \<open>origName\<close> is the argument
  \<open>originalFileName\<close>; an empty string is falsy, so an empty name takes the branch of
  the absent one.
\<close>

definition saveMaskError :: toolResult where
  "saveMaskError =
     \<lparr>contentText = ''Invalid mask data URL format'',
      structuredContent = Some [(''status'', ''error''), (''filePath'', [])],
      isError = True\<rparr>"

definition saveMaskFileName :: "libs \<Rightarrow> nat \<Rightarrow> string option \<Rightarrow> string \<Rightarrow> string" where
  "saveMaskFileName L now origName ext =
     (let baseName = (case origName of
                        None \<Rightarrow> ''mask''
                      | Some f \<Rightarrow> if f \<noteq> [] then parseName L f else ''mask'')
      in baseName @ ''_mask_'' @ showNat now @ ''.'' @ ext)"

definition saveMask ::
  "libs \<Rightarrow> string \<Rightarrow> nat \<Rightarrow> filesystem \<Rightarrow> string \<Rightarrow> string option
     \<Rightarrow> (exn + toolResult) \<times> filesystem" where
  "saveMask L OUTPUT_DIR now fs maskDataUrl origName =
     (case mkdirRecursive fs OUTPUT_DIR of
        Inl e \<Rightarrow> (Inl e, fs)
      | Inr fs1 \<Rightarrow>
          (case matchDataUrl maskDataUrl of
             None \<Rightarrow> (Inr saveMaskError, fs1)
           | Some (ext, base64Data) \<Rightarrow>
               (let buffer = fromBase64 L base64Data;
                    fileName = saveMaskFileName L now origName ext;
                    filePath = joinPath L OUTPUT_DIR fileName
                in case writeFile fs1 filePath buffer of
                     Inl e \<Rightarrow> (Inl e, fs1)
                   | Inr fs2 \<Rightarrow>
                       (Inr \<lparr>contentText = ''Mask saved to '' @ filePath,
                             structuredContent =
                               Some [(''status'', ''saved''), (''filePath'', filePath)],
                             isError = False\<rparr>, fs2))))"

section \<open>The apply-mask tool\<close>

text \<open>
  The loop of lines 175-177, \<^verbatim>\<open>imageData[i * 4 + 3] = maskData[i]\<close> for
  \<open>i < (width ?? 0) * (height ?? 0)\<close>. A read past the end of \<open>maskData\<close> is
  \<open>undefined\<close>, stored as \<open>0\<close>; a write past the end of \<open>imageData\<close> does nothing.
\<close>

definition orZero :: "nat option \<Rightarrow> nat" where
  "orZero v = (case v of None \<Rightarrow> 0 | Some n \<Rightarrow> n)"

definition readOrZero :: "byte list \<Rightarrow> nat \<Rightarrow> byte" where
  "readOrZero d i = (if i < length d then d ! i else 0)"

definition setAlpha :: "byte list \<Rightarrow> byte list \<Rightarrow> nat \<Rightarrow> byte list" where
  "setAlpha imageData maskData n =
     fold (\<lambda>i d. d[i * 4 + 3 := readOrZero maskData i]) [0..<n] imageData"

text \<open>
  The handler of \<^verbatim>\<open>apply-mask\<close> (lines 150-191); \<open>imageArg\<close> and \<open>maskArg\<close>
  are its arguments \<open>image\<close> and \<open>mask\<close>. It has no \<^verbatim>\<open>try\<close>: a promise of
  \<open>sharp\<close> that is rejected rejects the handler's.
\<close>

definition applyMask :: "libs \<Rightarrow> string \<Rightarrow> string \<Rightarrow> exn + toolResult" where
  "applyMask L imageArg maskArg =
     (let imageBuffer = fromBase64 L (stripPrefix imageArg);
          maskBuffer = fromBase64 L (stripPrefix maskArg)
      in case sharpMetadata L imageBuffer of
           Inl e \<Rightarrow> Inl e
         | Inr (width, height) \<Rightarrow>
             (case sharpRaw L imageBuffer of
                Inl e \<Rightarrow> Inl e
              | Inr imageData \<Rightarrow>
                  (case sharpGray L maskBuffer width height of
                     Inl e \<Rightarrow> Inl e
                   | Inr maskData \<Rightarrow>
                       (case sharpPng L
                               (setAlpha imageData maskData (orZero width * orZero height))
                               width height of
                          Inl e \<Rightarrow> Inl e
                        | Inr resultBuffer \<Rightarrow>
                            (let resultBase64 =
                                   ''data:image/png;base64,'' @ toBase64 L resultBuffer
                             in Inr \<lparr>contentText = resultBase64,
                                     structuredContent = Some [(''result'', resultBase64)],
                                     isError = False\<rparr>)))))"

section \<open>The specification's notions\<close>

text \<open>
  The fit in exact arithmetic, as the specification writes it:
  \<open>scale = min(Wv/Wi, Hv/Hi, 1)\<close>, \<open>draw = round(size * scale)\<close> and
  \<open>offset = round((viewport - draw) / 2)\<close>.
\<close>

definition fitScale :: "nat \<Rightarrow> nat \<Rightarrow> nat \<Rightarrow> nat \<Rightarrow> rat" where
  "fitScale Wv Hv Wi Hi = min (min (of_nat Wv / of_nat Wi) (of_nat Hv / of_nat Hi)) 1"

definition fitDraw :: "nat \<Rightarrow> rat \<Rightarrow> int" where
  "fitDraw n sc = roundHalfUp (of_nat n * sc)"

definition fitOffset :: "nat \<Rightarrow> int \<Rightarrow> int" where
  "fitOffset v d = roundHalfUp ((of_nat v - of_int d) / 2)"






text \<open>
  The pattern \<^verbatim>\<open>data:image/<ext>;base64,<payload>\<close>: \<open>ext\<close> is one or more word
  characters, \<open>payload\<close> one or more characters, none a line terminator.
\<close>

definition dataUrlPattern :: "string \<Rightarrow> string \<Rightarrow> string \<Rightarrow> bool" where
  "dataUrlPattern s ext payload =
     (s = ''data:image/'' @ ext @ '';base64,'' @ payload \<and>
      ext \<noteq> [] \<and> list_all isWordChar ext \<and>
      payload \<noteq> [] \<and> list_all (\<lambda>c. \<not> isLineTerminator c) payload)"

text \<open>
  The characters of a base64 payload, in the standard and the URL-safe alphabet, and the
  padding.
\<close>

definition isBase64Char :: "char \<Rightarrow> bool" where
  "isBase64Char c =
     (let n = (of_char c :: nat)
      in (65 \<le> n \<and> n \<le> 90) \<or> (97 \<le> n \<and> n \<le> 122) \<or> (48 \<le> n \<and> n \<le> 57) \<or>
         n = 43 \<or> n = 47 \<or> n = 61 \<or> n = 45 \<or> n = 95)"

text \<open>The results the two handlers build on success.\<close>

definition savedResult :: "string \<Rightarrow> toolResult" where
  "savedResult filePath =
     \<lparr>contentText = ''Mask saved to '' @ filePath,
      structuredContent = Some [(''status'', ''saved''), (''filePath'', filePath)],
      isError = False\<rparr>"

definition applyMaskResult :: "libs \<Rightarrow> byte list \<Rightarrow> toolResult" where
  "applyMaskResult L png =
     \<lparr>contentText = ''data:image/png;base64,'' @ toBase64 L png,
      structuredContent = Some [(''result'', ''data:image/png;base64,'' @ toBase64 L png)],
      isError = False\<rparr>"

text \<open>
  The base name of the saved file: the name of the original file without directory and
  extension, or \<open>mask\<close> when the original name is absent or empty.
\<close>

definition baseNameOf :: "libs \<Rightarrow> string option \<Rightarrow> string" where
  "baseNameOf L origName =
     (case origName of None \<Rightarrow> ''mask'' | Some f \<Rightarrow> if f = [] then ''mask'' else parseName L f)"

section \<open>Concrete inputs\<close>

text \<open>
  An editor holding a 2 by 1 image in a 2 by 2 viewport: the fit has scale 1 and
  offsets \<open>(0, 1)\<close>, and one pixel of the mask canvas, at \<open>(0, 1)\<close>, carries paint
  (\<^verbatim>\<open>rgba(255, 0, 0, 0.4)\<close>).
\<close>

definition demoEditor :: editor where
  "demoEditor =
     \<lparr>loadedImage = Some \<lparr>naturalWidth = 2, naturalHeight = 1\<rparr>,
      originalFileName = ''photo.png'', isDrawing = False, brushSize = 30,
      hasMaskContent = True, currentImageRect = (Fin 0, Fin 1, Fin 2, Fin 1),
      clientWidth = 2, clientHeight = 2,
      maskCanvas = \<lparr>cwidth = 2, cheight = 2,
                     cdata = [0, 0, 0, 0,  0, 0, 0, 0,  255, 0, 0, 102,  0, 0, 0, 0]\<rparr>,
      statusText = ''Image loaded: 2x1'', statusClass = ''status-bar'',
      confirmDisabled = False, confirmText = ''Confirm Mask'', serverCalls = []\<rparr>"

definition demoMask :: canvas where
  "demoMask = \<lparr>cwidth = 2, cheight = 1, cdata = [255, 255, 255, 255,  0, 0, 0, 255]\<rparr>"

text \<open>The same editor before any paint.\<close>

definition blankEditor :: editor where
  "blankEditor = demoEditor\<lparr>hasMaskContent := False,
     maskCanvas := \<lparr>cwidth = 2, cheight = 2, cdata = replicate 16 0\<rparr>\<rparr>"

definition demoToDataURL :: "canvas \<Rightarrow> string" where
  "demoToDataURL c = ''data:image/png;base64,'' @ map (\<lambda>b. char_of (unat b)) (cdata c)"

definition demoServer :: "toolCall \<Rightarrow> exn + toolResult" where
  "demoServer call =
     Inr \<lparr>contentText = ''Mask saved to /srv/output/photo_mask_1.png'',
          structuredContent = Some [(''status'', ''saved''),
                                    (''filePath'', ''/srv/output/photo_mask_1.png'')],
          isError = False\<rparr>"

text \<open>
  A stand-in for the libraries, to run the handlers at concrete inputs. Base64 is
  replaced by the identity on bytes; an image is two size bytes followed by its
  samples, and a mask is not resized. It says nothing about Node or \<open>sharp\<close>.
\<close>

definition demoSize :: "byte list \<Rightarrow> (nat \<times> nat \<times> byte list) option" where
  "demoSize buf = (case buf of w # h # px \<Rightarrow> Some (unat w, unat h, px) | _ \<Rightarrow> None)"

definition demoLibs :: libs where
  "demoLibs =
     \<lparr>fromBase64 = map (\<lambda>c. of_nat (of_char c)),
      toBase64 = map (\<lambda>b. char_of (unat b)),
      parseName = takeWhile (\<lambda>c. c \<noteq> CHR ''.''),
      joinPath = (\<lambda>d f. d @ ''/'' @ f),
      sharpMetadata = (\<lambda>buf. case demoSize buf of
          None \<Rightarrow> Inl (JsError ''Input buffer contains unsupported image format'')
        | Some (w, h, px) \<Rightarrow> Inr (Some w, Some h)),
      sharpRaw = (\<lambda>buf. case demoSize buf of
          None \<Rightarrow> Inl (JsError ''Input buffer contains unsupported image format'')
        | Some (w, h, px) \<Rightarrow>
            if length px = w * h * 4 then Inr px else Inl (JsError ''Input buffer is truncated'')),
      sharpGray = (\<lambda>buf width height. case demoSize buf of
          None \<Rightarrow> Inl (JsError ''Input buffer contains unsupported image format'')
        | Some (w, h, px) \<Rightarrow>
            if length px = w * h \<and> width = Some w \<and> height = Some h then Inr px
            else Inl (JsError ''Input buffer is truncated'')),
      sharpPng = (\<lambda>d width height. case (width, height) of
          (Some w, Some h) \<Rightarrow>
            if length d = w * h * 4 then Inr (of_nat w # of_nat h # d)
            else Inl (JsError ''Input buffer has the wrong size'')
        | _ \<Rightarrow> Inl (JsError ''Expected a width and a height''))\<rparr>"

text \<open>The same, with letters for small bytes (\<open>A\<close> is 1, \<open>B\<close> is 2, ...).\<close>

definition shiftedLibs :: libs where
  "shiftedLibs = demoLibs\<lparr>fromBase64 := map (\<lambda>c. of_nat (of_char c - 64)),
                          toBase64 := map (\<lambda>b. char_of (unat b + 64))\<rparr>"

text \<open>A file system in which the output path is a regular file.\<close>

definition occupiedFs :: filesystem where
  "occupiedFs = [''/srv/output'' \<mapsto> File []]"

text \<open>
  An image of 1 by 2 pixels, \<open>(10, 20, 30, 255)\<close> and \<open>(40, 50, 60, 255)\<close>, and
  masks of the same size: all white, all black, and one with a sample missing.
\<close>

definition demoImage :: string where
  "demoImage = map char_of [1, 2, 10, 20, 30, 255, 40, 50, 60, 255 :: nat]"

definition whiteMask :: string where
  "whiteMask = map char_of [1, 2, 255, 255 :: nat]"

definition blackMask :: string where
  "blackMask = map char_of [1, 2, 0, 0 :: nat]"

definition truncatedMask :: string where
  "truncatedMask = map char_of [1, 2, 255 :: nat]"


section \<open>Properties of the display transform\<close>

lemma displayTransform_finite:
  assumes "0 < imgW" "0 < imgH"
  shows "displayTransform wrapperW wrapperH imgW imgH =
    \<lparr>scale = Fin (fitScale wrapperW wrapperH imgW imgH),
     drawW = Fin (of_int (fitDraw imgW (fitScale wrapperW wrapperH imgW imgH))),
     drawH = Fin (of_int (fitDraw imgH (fitScale wrapperW wrapperH imgW imgH))),
     offsetX = Fin (of_int (fitOffset wrapperW (fitDraw imgW (fitScale wrapperW wrapperH imgW imgH)))),
     offsetY = Fin (of_int (fitOffset wrapperH (fitDraw imgH (fitScale wrapperW wrapperH imgW imgH))))\<rparr>"
  using assms
  by (simp add: displayTransform_def ofNat_def fitScale_def fitDraw_def fitOffset_def jsub_def Let_def min_def)













lemma roundHalfUp_0: "roundHalfUp 0 = 0"
  unfolding roundHalfUp_def by linarith

lemma fitScale_zero:
  assumes "Wv = 0 \<or> Hv = 0"
  shows "fitScale Wv Hv Wi Hi = 0"
proof -
  define a b where "a = rat_of_nat Wv / of_nat Wi" and "b = rat_of_nat Hv / of_nat Hi"
  have "0 \<le> a" "0 \<le> b" by (simp_all add: a_def b_def)
  moreover have "a = 0 \<or> b = 0"
    using assms by (auto simp: a_def b_def)
  ultimately have "min (min a b) 1 = 0" by linarith
  then show ?thesis by (simp add: fitScale_def a_def b_def)
qed

text \<open>
  Claim C8, as stated, fails for an image with a zero dimension. An image of width 0
  and height 10 in a viewport of 100 by 100: \<open>100 / 0\<close> is \<open>Infinity\<close>, the scale is
  \<open>min(Infinity, 10, 1) = 1\<close>, and \<open>drawH = round(10 * 1) = 10\<close>, not \<open>0\<close>.
\<close>

theorem displayTransform_zero_image_counterexample:
  "drawW (displayTransform 100 100 0 10) = Fin 0 \<and>
   drawH (displayTransform 100 100 0 10) = Fin 10"
  by code_simp

text \<open>
  When both the image and the viewport have width 0 the scale is \<open>0 / 0\<close>, and every
  field of the rectangle is \<open>NaN\<close>.
\<close>

lemma displayTransform_nan:
  "displayTransform 0 100 0 10 =
     \<lparr>scale = NaN, drawW = NaN, drawH = NaN, offsetX = NaN, offsetY = NaN\<rparr>"
  by code_simp

text \<open>
  Claim C8, amended. When the viewport has a zero dimension and both image dimensions
  are positive, or when both image dimensions are zero and the viewport's are positive,
  the rectangle has \<open>drawW = 0\<close> and \<open>drawH = 0\<close>. (No input makes the transform
  fail: a division by zero is \<open>Infinity\<close> or \<open>NaN\<close>, and \<open>displayTransform\<close> is a
  total function.)
\<close>

theorem displayTransform_zero:
  assumes "(Wv = 0 \<or> Hv = 0) \<and> 0 < Wi \<and> 0 < Hi \<or> Wi = 0 \<and> Hi = 0 \<and> 0 < Wv \<and> 0 < Hv"
  shows "drawW (displayTransform Wv Hv Wi Hi) = Fin 0 \<and>
         drawH (displayTransform Wv Hv Wi Hi) = Fin 0"
proof -
  from assms consider
    (viewport) "Wv = 0 \<or> Hv = 0" "0 < Wi" "0 < Hi"
  | (image) "Wi = 0" "Hi = 0" "0 < Wv" "0 < Hv"
    by blast
  then show ?thesis
  proof cases
    case viewport
    then show ?thesis
      by (simp add: displayTransform_finite fitDraw_def fitScale_zero roundHalfUp_0)
  next
    case image
    then show ?thesis
      by (simp add: displayTransform_def ofNat_def signedInf_def roundHalfUp_0 Let_def)
  qed
qed

theorem displayTransform_zero_witness:
  "drawW (displayTransform 0 100 7 10) = Fin 0 \<and> drawH (displayTransform 0 100 7 10) = Fin 0 \<and>
   drawW (displayTransform 100 100 0 0) = Fin 0 \<and> drawH (displayTransform 100 100 0 0) = Fin 0"
  using displayTransform_zero[of 0 100 7 10] displayTransform_zero[of 100 100 0 0]
  by simp

section \<open>Properties of the mask rasterizer\<close>


















lemma getImageData_fail: "gw = 0 \<or> gh = 0 \<Longrightarrow> getImageData c gw gh = Inl (DOMException ''IndexSizeError'')"
  by (auto simp: getImageData_def)









text \<open>
  Claim C9. Rasterizing leaves the editor (the painted mask, the image, the
  rectangle) as it was, and rasterizing again from the state the first run leaves gives
  the same native mask and the same data URL.
\<close>

theorem generateMaskDataUrl_twice:
  "snd (generateMaskDataUrl toDataURL s) = s \<and>
   nativeMask (snd (generateMaskDataUrl toDataURL s)) = nativeMask s \<and>
   fst (generateMaskDataUrl toDataURL (snd (generateMaskDataUrl toDataURL s))) =
     fst (generateMaskDataUrl toDataURL s)"
proof -
  have "snd (generateMaskDataUrl toDataURL s) = s"
    by (simp add: generateMaskDataUrl_def split: sum.splits)
  then show ?thesis by simp
qed

section \<open>Properties of the confirm handler\<close>

text \<open>
  Claim C4. A click on the confirm button while no image is loaded or while
  \<open>hasMaskContent\<close> is false sends no call to the server and changes nothing of the
  editor but the status bar, which shows an error message.
\<close>

theorem confirmClick_rejected:
  assumes "loadedImage s = None \<or> \<not> hasMaskContent s"
  shows "confirmClick toDataURL callServerTool s =
           s\<lparr>statusText := ''Paint a selection on the image first'',
             statusClass := ''status-bar error''\<rparr> \<and>
         serverCalls (confirmClick toDataURL callServerTool s) = serverCalls s"
  using assms by (auto simp: confirmClick_def setStatus_def)

theorem confirmClick_rejected_witness:
  "\<not> hasMaskContent blankEditor \<and>
   confirmClick demoToDataURL demoServer blankEditor =
     blankEditor\<lparr>statusText := ''Paint a selection on the image first'',
                 statusClass := ''status-bar error''\<rparr> \<and>
   serverCalls (confirmClick demoToDataURL demoServer blankEditor) = []"
proof -
  have h: "\<not> hasMaskContent blankEditor" by (simp add: blankEditor_def)
  then have "loadedImage blankEditor = None \<or> \<not> hasMaskContent blankEditor" by simp
  from confirmClick_rejected[OF this, of demoToDataURL demoServer] h
  show ?thesis by (simp add: blankEditor_def demoEditor_def)
qed

text \<open>
  With paint on the canvas the same click does reach the server, with the data URL of
  the native mask.
\<close>

lemma confirmClick_sends:
  "serverCalls (confirmClick demoToDataURL demoServer demoEditor) =
     [\<lparr>toolName = ''save-mask'', argMaskDataUrl = demoToDataURL demoMask,
       argOriginalFileName = ''photo.png''\<rparr>]"
  by code_simp

section \<open>Properties of the patterns\<close>

lemma stripLiteral_append: "stripLiteral p (p @ r) = Some r"
  by (simp add: stripLiteral_def)

lemma stripLiteral_Some: "stripLiteral p s = Some r \<Longrightarrow> s = p @ r"
  by (auto simp: stripLiteral_def split: if_splits) (metis append_take_drop_id)

lemma semicolon_not_word: "\<not> isWordChar (CHR '';'')"
  by (simp add: isWordChar_def)

lemma takeWhile_word:
  assumes "list_all isWordChar ext"
  shows "takeWhile isWordChar (ext @ '';base64,'' @ rest) = ext"
    and "dropWhile isWordChar (ext @ '';base64,'' @ rest) = '';base64,'' @ rest"
  using assms semicolon_not_word by (simp_all add: list_all_iff)

lemma matchPrefix_prefixed:
  assumes "ext \<noteq> []" "list_all isWordChar ext"
  shows "matchPrefix (''data:image/'' @ ext @ '';base64,'' @ rest) = Some (ext, rest)"
proof -
  have "stripLiteral ''data:image/'' (''data:image/'' @ ext @ '';base64,'' @ rest)
          = Some (ext @ '';base64,'' @ rest)"
    by (rule stripLiteral_append)
  moreover have "stripLiteral '';base64,'' ('';base64,'' @ rest) = Some rest"
    by (rule stripLiteral_append)
  ultimately show ?thesis
    unfolding matchPrefix_def using assms(1) takeWhile_word[OF assms(2), of rest]
    by (simp add: Let_def)
qed

lemma matchPrefix_Some:
  assumes "matchPrefix s = Some (ext, rest)"
  shows "s = ''data:image/'' @ ext @ '';base64,'' @ rest \<and> ext \<noteq> [] \<and> list_all isWordChar ext"
proof -
  from assms obtain r where r: "stripLiteral ''data:image/'' s = Some r"
    by (auto simp: matchPrefix_def split: option.splits)
  with assms have e: "ext = takeWhile isWordChar r" "ext \<noteq> []"
    and d: "stripLiteral '';base64,'' (dropWhile isWordChar r) = Some rest"
    by (auto simp: matchPrefix_def Let_def split: option.splits if_splits)
  have "r = takeWhile isWordChar r @ dropWhile isWordChar r" by simp
  also have "\<dots> = ext @ '';base64,'' @ rest"
    using stripLiteral_Some[OF d] e(1) by simp
  finally have "s = ''data:image/'' @ ext @ '';base64,'' @ rest"
    using stripLiteral_Some[OF r] by simp
  moreover have "list_all isWordChar ext"
    unfolding e(1) list_all_iff using set_takeWhileD by fast
  ultimately show ?thesis using e(2) by simp
qed

lemma matchDataUrl_iff:
  "matchDataUrl s = Some (ext, payload) \<longleftrightarrow> dataUrlPattern s ext payload"
proof
  assume m: "matchDataUrl s = Some (ext, payload)"
  then have p: "matchPrefix s = Some (ext, payload)"
    and q: "payload \<noteq> []" "list_all (\<lambda>c. \<not> isLineTerminator c) payload"
    by (auto simp: matchDataUrl_def split: option.splits if_splits)
  from matchPrefix_Some[OF p] q show "dataUrlPattern s ext payload"
    by (simp add: dataUrlPattern_def)
next
  assume "dataUrlPattern s ext payload"
  then have s: "s = ''data:image/'' @ ext @ '';base64,'' @ payload"
    and e: "ext \<noteq> []" "list_all isWordChar ext"
    and q: "payload \<noteq> []" "list_all (\<lambda>c. \<not> isLineTerminator c) payload"
    by (simp_all add: dataUrlPattern_def)
  have "matchPrefix s = Some (ext, payload)"
    unfolding s by (rule matchPrefix_prefixed[OF e])
  then show "matchDataUrl s = Some (ext, payload)"
    using q by (simp add: matchDataUrl_def)
qed

lemma matchDataUrl_None_iff:
  "matchDataUrl s = None \<longleftrightarrow> (\<forall>ext payload. \<not> dataUrlPattern s ext payload)"
proof -
  have "matchDataUrl s \<noteq> None \<longleftrightarrow> (\<exists>ext payload. dataUrlPattern s ext payload)"
    using matchDataUrl_iff[of s] by (metis not_None_eq surj_pair)
  then show ?thesis by blast
qed

lemma stripPrefix_prefixed:
  assumes "ext \<noteq> []" "list_all isWordChar ext"
  shows "stripPrefix (''data:image/'' @ ext @ '';base64,'' @ rest) = rest"
  unfolding stripPrefix_def matchPrefix_prefixed[OF assms] by simp

lemma colon_not_base64: "\<not> isBase64Char (CHR '':'')"
  by (simp add: isBase64Char_def)

lemma stripPrefix_base64:
  assumes "list_all isBase64Char p"
  shows "stripPrefix p = p"
proof -
  have "stripLiteral ''data:image/'' p = None"
  proof (rule ccontr)
    assume "stripLiteral ''data:image/'' p \<noteq> None"
    then obtain r where "stripLiteral ''data:image/'' p = Some r" by blast
    from stripLiteral_Some[OF this] have "CHR '':'' \<in> set p" by simp
    with assms colon_not_base64 show False by (auto simp: list_all_iff)
  qed
  then show ?thesis by (simp add: stripPrefix_def matchPrefix_def)
qed

section \<open>Properties of the save-mask tool\<close>

lemma mkdirRecursive_files:
  assumes "mkdirRecursive fs p = Inr fs1"
  shows "(fs1 q = Some (File d)) = (fs q = Some (File d))"
    and "fs1 = (case fs p of None \<Rightarrow> fs(p \<mapsto> Dir) | Some n \<Rightarrow> fs)"
    and "fs1 p = Some Dir"
  using assms by (auto simp: mkdirRecursive_def split: option.splits node.splits if_splits)

lemma writeFile_Inr:
  assumes "writeFile fs p d = Inr fs2"
  shows "fs2 = fs(p \<mapsto> File d)"
  using assms by (auto simp: writeFile_def split: option.splits node.splits)

lemma saveMask_cases:
  "saveMask L OUTPUT_DIR now fs url origName =
     (case mkdirRecursive fs OUTPUT_DIR of
        Inl e \<Rightarrow> (Inl e, fs)
      | Inr fs1 \<Rightarrow>
          (case matchDataUrl url of
             None \<Rightarrow> (Inr saveMaskError, fs1)
           | Some (ext, payload) \<Rightarrow>
               (case writeFile fs1 (joinPath L OUTPUT_DIR (saveMaskFileName L now origName ext))
                       (fromBase64 L payload) of
                  Inl e \<Rightarrow> (Inl e, fs1)
                | Inr fs2 \<Rightarrow>
                    (Inr (savedResult (joinPath L OUTPUT_DIR (saveMaskFileName L now origName ext))),
                     fs2))))"
  by (simp add: saveMask_def savedResult_def Let_def split: sum.splits option.splits prod.splits)

lemma saveMaskFileName_eq:
  "saveMaskFileName L now origName ext =
     baseNameOf L origName @ ''_mask_'' @ showNat now @ ''.'' @ ext"
  by (simp add: saveMaskFileName_def baseNameOf_def Let_def split: option.splits)

text \<open>
  Claim C5, as stated, fails: the handler creates the output directory before it looks
  at \<open>maskDataUrl\<close>. When that fails (here the output path is a regular file) the
  fault leaves the handler, also for a string that does not match the pattern.
\<close>

theorem saveMask_mkdir_counterexample:
  "matchDataUrl ''not a data url'' = None \<and>
   saveMask demoLibs ''/srv/output'' 1700000000000 occupiedFs ''not a data url'' None =
     (Inl (JsError ''EEXIST''), occupiedFs)"
proof -
  have "matchDataUrl ''not a data url'' = None" by code_simp
  moreover have "mkdirRecursive occupiedFs ''/srv/output'' = Inl (JsError ''EEXIST'')"
    by (simp add: mkdirRecursive_def occupiedFs_def)
  ultimately show ?thesis by (simp add: saveMask_cases)
qed

text \<open>
  Claim C5, amended. Provided the output directory can be created: for a
  \<open>maskDataUrl\<close> that does not match \<^verbatim>\<open>data:image/<ext>;base64,<payload>\<close> the
  handler returns the structured error (\<open>isError\<close> true, status \<open>error\<close>, empty
  \<open>filePath\<close>) and no file is written or changed; for a matching one, provided the
  file can be written, it writes the decoded payload and returns status \<open>saved\<close>.
\<close>

theorem saveMask_validates:
  assumes "mkdirRecursive fs OUTPUT_DIR = Inr fs1"
  shows "((\<forall>ext payload. \<not> dataUrlPattern url ext payload) \<longrightarrow>
            saveMask L OUTPUT_DIR now fs url origName =
              (Inr \<lparr>contentText = ''Invalid mask data URL format'',
                    structuredContent = Some [(''status'', ''error''), (''filePath'', [])],
                    isError = True\<rparr>, fs1) \<and>
            (\<forall>p d. (fs1 p = Some (File d)) = (fs p = Some (File d)))) \<and>
         (\<forall>ext payload fs2.
            dataUrlPattern url ext payload \<and>
            writeFile fs1 (joinPath L OUTPUT_DIR (saveMaskFileName L now origName ext))
              (fromBase64 L payload) = Inr fs2 \<longrightarrow>
            saveMask L OUTPUT_DIR now fs url origName =
              (Inr (savedResult (joinPath L OUTPUT_DIR (saveMaskFileName L now origName ext))),
               fs2) \<and>
            fs2 (joinPath L OUTPUT_DIR (saveMaskFileName L now origName ext)) =
              Some (File (fromBase64 L payload)))"
proof (intro conjI allI impI)
  assume "\<forall>ext payload. \<not> dataUrlPattern url ext payload"
  then have "matchDataUrl url = None" by (simp add: matchDataUrl_None_iff)
  then show "saveMask L OUTPUT_DIR now fs url origName =
              (Inr \<lparr>contentText = ''Invalid mask data URL format'',
                    structuredContent = Some [(''status'', ''error''), (''filePath'', [])],
                    isError = True\<rparr>, fs1)"
    using assms by (simp add: saveMask_cases saveMaskError_def)
next
  fix p d
  show "(fs1 p = Some (File d)) = (fs p = Some (File d))"
    by (rule mkdirRecursive_files(1)[OF assms])
next
  fix ext payload fs2
  assume a: "dataUrlPattern url ext payload \<and>
            writeFile fs1 (joinPath L OUTPUT_DIR (saveMaskFileName L now origName ext))
              (fromBase64 L payload) = Inr fs2"
  then have m: "matchDataUrl url = Some (ext, payload)" by (simp add: matchDataUrl_iff)
  from a m assms
  show "saveMask L OUTPUT_DIR now fs url origName =
              (Inr (savedResult (joinPath L OUTPUT_DIR (saveMaskFileName L now origName ext))),
               fs2)"
    by (simp add: saveMask_cases)
  from a writeFile_Inr
  show "fs2 (joinPath L OUTPUT_DIR (saveMaskFileName L now origName ext)) =
              Some (File (fromBase64 L payload))"
    by fastforce
qed

text \<open>With no output directory yet: one rejected and one accepted data URL.\<close>

theorem saveMask_validates_witness:
  "saveMask demoLibs ''/srv/output'' 1700000000000 Map.empty ''not a data url'' None =
     (Inr \<lparr>contentText = ''Invalid mask data URL format'',
           structuredContent = Some [(''status'', ''error''), (''filePath'', [])],
           isError = True\<rparr>, [''/srv/output'' \<mapsto> Dir]) \<and>
   saveMask demoLibs ''/srv/output'' 1700000000000 Map.empty
       ''data:image/png;base64,AAAA'' (Some ''photo.png'') =
     (Inr (savedResult ''/srv/output/photo_mask_1700000000000.png''),
      [''/srv/output'' \<mapsto> Dir,
       ''/srv/output/photo_mask_1700000000000.png'' \<mapsto> File [65, 65, 65, 65]])"
proof -
  let ?fs1 = "[''/srv/output'' \<mapsto> Dir] :: filesystem"
  let ?path = "''/srv/output/photo_mask_1700000000000.png''"
  have mk: "mkdirRecursive Map.empty ''/srv/output'' = Inr ?fs1"
    by (simp add: mkdirRecursive_def)
  have n: "\<forall>ext payload. \<not> dataUrlPattern ''not a data url'' ext payload"
    unfolding matchDataUrl_None_iff[symmetric] by code_simp
  have y: "dataUrlPattern ''data:image/png;base64,AAAA'' ''png'' ''AAAA''"
    unfolding matchDataUrl_iff[symmetric] by code_simp
  have p: "joinPath demoLibs ''/srv/output''
      (saveMaskFileName demoLibs 1700000000000 (Some ''photo.png'') ''png'') = ?path"
    by (simp add: demoLibs_def saveMaskFileName_def)
  have b: "fromBase64 demoLibs ''AAAA'' = [65, 65, 65, 65]" by code_simp
  have w: "writeFile ?fs1 ?path [65, 65, 65, 65] = Inr (?fs1(?path \<mapsto> File [65, 65, 65, 65]))"
    by (simp add: writeFile_def)
  from saveMask_validates[OF mk, of "''not a data url''" demoLibs 1700000000000 None] n
  have 1: "saveMask demoLibs ''/srv/output'' 1700000000000 Map.empty ''not a data url'' None =
     (Inr \<lparr>contentText = ''Invalid mask data URL format'',
           structuredContent = Some [(''status'', ''error''), (''filePath'', [])],
           isError = True\<rparr>, ?fs1)"
    by blast
  have 2: "saveMask demoLibs ''/srv/output'' 1700000000000 Map.empty
       ''data:image/png;base64,AAAA'' (Some ''photo.png'') =
     (Inr (savedResult ?path), ?fs1(?path \<mapsto> File [65, 65, 65, 65]))"
    using saveMask_validates[OF mk, of "''data:image/png;base64,AAAA''" demoLibs 1700000000000
        "Some ''photo.png''", THEN conjunct2, rule_format,
        of "''png''" "''AAAA''" "?fs1(?path \<mapsto> File [65, 65, 65, 65])"] y w
    unfolding p b by simp
  from 1 2 show ?thesis by simp
qed

text \<open>
  Claim C7, as stated, fails for an original file name that is present and empty: the
  empty string is falsy, the base name is the fallback \<open>mask\<close>, and the file is
  \<^verbatim>\<open>mask_mask_<timestamp>.<ext>\<close>, not \<^verbatim>\<open>_mask_<timestamp>.<ext>\<close>.
\<close>

theorem saveMask_empty_name_counterexample:
  "parseName demoLibs [] = [] \<and>
   fst (saveMask demoLibs ''/srv/output'' 1700000000000 Map.empty
          ''data:image/png;base64,AAAA'' (Some [])) =
     Inr (savedResult ''/srv/output/mask_mask_1700000000000.png'')"
proof -
  have m: "matchDataUrl ''data:image/png;base64,AAAA'' = Some (''png'', ''AAAA'')" by code_simp
  have p: "joinPath demoLibs ''/srv/output''
      (saveMaskFileName demoLibs 1700000000000 (Some []) ''png'') =
      ''/srv/output/mask_mask_1700000000000.png''"
    by (simp add: demoLibs_def saveMaskFileName_def)
  have n: "parseName demoLibs [] = []" by (simp add: demoLibs_def)
  have "fst (saveMask demoLibs ''/srv/output'' 1700000000000 Map.empty
          ''data:image/png;base64,AAAA'' (Some [])) =
     Inr (savedResult ''/srv/output/mask_mask_1700000000000.png'')"
    by (simp add: saveMask_cases m p mkdirRecursive_def writeFile_def)
  with n show ?thesis by simp
qed

text \<open>
  Claim C7, amended. Every call of save-mask that returns a result which is not an
  error has written exactly one file, with the decoded payload, named
  \<^verbatim>\<open><baseName>_mask_<timestamp>.<ext>\<close> in the output directory, which is created
  when it does not exist: \<open>baseName\<close> is \<^verbatim>\<open>path.parse(originalFileName).name\<close>, or
  \<open>mask\<close> when \<open>originalFileName\<close> is absent or empty, \<open>timestamp\<close> is the decimal
  \<^verbatim>\<open>Date.now()\<close>, and \<open>ext\<close> is the extension of the data URL.
\<close>

theorem saveMask_file_name:
  assumes "saveMask L OUTPUT_DIR now fs url origName = (Inr res, fs')"
    and "\<not> isError res"
  shows "\<exists>ext payload.
     dataUrlPattern url ext payload \<and>
     res = savedResult (joinPath L OUTPUT_DIR
             (baseNameOf L origName @ ''_mask_'' @ showNat now @ ''.'' @ ext)) \<and>
     fs' = (case fs OUTPUT_DIR of None \<Rightarrow> fs(OUTPUT_DIR \<mapsto> Dir) | Some n \<Rightarrow> fs)
             (joinPath L OUTPUT_DIR
                (baseNameOf L origName @ ''_mask_'' @ showNat now @ ''.'' @ ext)
              \<mapsto> File (fromBase64 L payload))"
proof -
  from assms(1) obtain fs1 where mk: "mkdirRecursive fs OUTPUT_DIR = Inr fs1"
    by (auto simp: saveMask_cases split: sum.splits)
  from assms mk obtain ext payload where m: "matchDataUrl url = Some (ext, payload)"
    by (auto simp: saveMask_cases saveMaskError_def split: option.splits)
  let ?path = "joinPath L OUTPUT_DIR (saveMaskFileName L now origName ext)"
  from assms(1) mk m obtain fs2 where
    w: "writeFile fs1 ?path (fromBase64 L payload) = Inr fs2"
    and r: "res = savedResult ?path" "fs' = fs2"
    by (auto simp: saveMask_cases split: sum.splits)
  have "dataUrlPattern url ext payload" using m by (simp add: matchDataUrl_iff)
  moreover have "fs' = (case fs OUTPUT_DIR of None \<Rightarrow> fs(OUTPUT_DIR \<mapsto> Dir) | Some n \<Rightarrow> fs)
             (?path \<mapsto> File (fromBase64 L payload))"
    using writeFile_Inr[OF w] mkdirRecursive_files(2)[OF mk] r(2) by simp
  ultimately show ?thesis using r(1) unfolding saveMaskFileName_eq by blast
qed

theorem saveMask_file_name_witness:
  "saveMask demoLibs ''/srv/output'' 1700000000000 Map.empty
       ''data:image/png;base64,AAAA'' (Some ''photo.png'') =
     (Inr (savedResult ''/srv/output/photo_mask_1700000000000.png''),
      [''/srv/output'' \<mapsto> Dir,
       ''/srv/output/photo_mask_1700000000000.png'' \<mapsto> File [65, 65, 65, 65]]) \<and>
   \<not> isError (savedResult ''/srv/output/photo_mask_1700000000000.png'')"
proof -
  let ?path = "''/srv/output/photo_mask_1700000000000.png''"
  let ?fs = "[''/srv/output'' \<mapsto> Dir, ?path \<mapsto> File [65, 65, 65, 65]] :: filesystem"
  have m: "matchDataUrl ''data:image/png;base64,AAAA'' = Some (''png'', ''AAAA'')" by code_simp
  have p: "joinPath demoLibs ''/srv/output''
      (saveMaskFileName demoLibs 1700000000000 (Some ''photo.png'') ''png'') = ?path"
    by (simp add: demoLibs_def saveMaskFileName_def)
  have b: "fromBase64 demoLibs ''AAAA'' = [65, 65, 65, 65]" by code_simp
  have e: "saveMask demoLibs ''/srv/output'' 1700000000000 Map.empty
       ''data:image/png;base64,AAAA'' (Some ''photo.png'') = (Inr (savedResult ?path), ?fs)"
    by (simp add: saveMask_cases m p b mkdirRecursive_def writeFile_def)
  have h: "\<not> isError (savedResult ?path)" by (simp add: savedResult_def)
  from saveMask_file_name[OF e h] e h show ?thesis by simp
qed

section \<open>Properties of the apply-mask tool\<close>

lemma length_setAlpha_fold:
  "length (fold (\<lambda>i d. d[i * 4 + 3 := readOrZero m i]) is d) = length d"
  by (induction "is" arbitrary: d) simp_all

lemma length_setAlpha: "length (setAlpha d m n) = length d"
  by (simp add: setAlpha_def length_setAlpha_fold)

lemma setAlpha_nth:
  "j < length d \<Longrightarrow>
   setAlpha d m n ! j =
     (if j mod 4 = 3 \<and> j div 4 < n then readOrZero m (j div 4) else d ! j)"
proof (induction n)
  case 0
  then show ?case by (simp add: setAlpha_def)
next
  case (Suc n)
  have s: "setAlpha d m (Suc n) = (setAlpha d m n)[n * 4 + 3 := readOrZero m n]"
    by (simp add: setAlpha_def)
  have l: "j < length (setAlpha d m n)" using Suc.prems by (simp add: length_setAlpha)
  have e: "(j = n * 4 + 3) = (j mod 4 = 3 \<and> j div 4 = n)" by presburger
  show ?case
  proof (cases "j = n * 4 + 3")
    case True
    with e have "j mod 4 = 3" "j div 4 = n" by simp_all
    then show ?thesis unfolding s using l True by simp
  next
    case False
    with e have "\<not> (j mod 4 = 3 \<and> j div 4 = n)" by simp
    then have "(j mod 4 = 3 \<and> j div 4 < Suc n) = (j mod 4 = 3 \<and> j div 4 < n)"
      by (auto simp: less_Suc_eq)
    then show ?thesis unfolding s using Suc.IH[OF Suc.prems] False by simp
  qed
qed

lemma setAlpha_pixel:
  assumes "i < n" "length d = n * 4" "length m = n"
  shows "setAlpha d m n ! (i * 4 + 3) = m ! i"
    and "k < 3 \<Longrightarrow> setAlpha d m n ! (i * 4 + k) = d ! (i * 4 + k)"
proof -
  have a: "i * 4 + 3 < length d" "(i * 4 + 3) mod 4 = 3" "(i * 4 + 3) div 4 = i"
    using assms(1,2) by simp_all
  show "setAlpha d m n ! (i * 4 + 3) = m ! i"
    using setAlpha_nth[OF a(1), of m n] a(2,3) assms(1,3) by (simp add: readOrZero_def)
  assume k: "k < 3"
  then have b: "i * 4 + k < length d" "(i * 4 + k) mod 4 = k"
    using assms(1,2) by simp_all
  show "setAlpha d m n ! (i * 4 + k) = d ! (i * 4 + k)"
    using setAlpha_nth[OF b(1), of m n] b(2) k by simp
qed

lemma applyMask_decoded:
  assumes "sharpMetadata L (fromBase64 L (stripPrefix imageArg)) = Inr (width, height)"
    and "sharpRaw L (fromBase64 L (stripPrefix imageArg)) = Inr imageData"
    and "sharpGray L (fromBase64 L (stripPrefix maskArg)) width height = Inr maskData"
  shows "applyMask L imageArg maskArg =
     (case sharpPng L (setAlpha imageData maskData (orZero width * orZero height)) width height of
        Inl e \<Rightarrow> Inl e
      | Inr png \<Rightarrow> Inr (applyMaskResult L png))"
  using assms by (simp add: applyMask_def applyMaskResult_def Let_def split: sum.splits)

text \<open>
  Claim C3. When the image decodes to \<open>width * height\<close> RGBA pixels and the mask,
  resized to \<open>width\<close> by \<open>height\<close> and turned to grayscale, decodes to one intensity
  for each pixel, the buffer the handler hands to the PNG encoder has, at every pixel
  \<open>i\<close>, the mask's intensity as alpha and the image's red, green and blue; an all-white
  mask gives alpha 255 everywhere and an all-black mask alpha 0. The handler's result is
  the data URL of the encoder's output.
\<close>

theorem applyMask_alpha:
  assumes "sharpMetadata L (fromBase64 L (stripPrefix imageArg)) = Inr (Some w, Some h)"
    and "sharpRaw L (fromBase64 L (stripPrefix imageArg)) = Inr imageData"
    and "length imageData = w * h * 4"
    and "sharpGray L (fromBase64 L (stripPrefix maskArg)) (Some w) (Some h) = Inr maskData"
    and "length maskData = w * h"
  shows "applyMask L imageArg maskArg =
           (case sharpPng L (setAlpha imageData maskData (w * h)) (Some w) (Some h) of
              Inl e \<Rightarrow> Inl e
            | Inr png \<Rightarrow> Inr (applyMaskResult L png)) \<and>
         length (setAlpha imageData maskData (w * h)) = w * h * 4 \<and>
         (\<forall>i. i < w * h \<longrightarrow>
            setAlpha imageData maskData (w * h) ! (i * 4 + 3) = maskData ! i \<and>
            setAlpha imageData maskData (w * h) ! (i * 4) = imageData ! (i * 4) \<and>
            setAlpha imageData maskData (w * h) ! (i * 4 + 1) = imageData ! (i * 4 + 1) \<and>
            setAlpha imageData maskData (w * h) ! (i * 4 + 2) = imageData ! (i * 4 + 2)) \<and>
         (list_all (\<lambda>b. b = 255) maskData \<longrightarrow>
            (\<forall>i. i < w * h \<longrightarrow> setAlpha imageData maskData (w * h) ! (i * 4 + 3) = 255)) \<and>
         (list_all (\<lambda>b. b = 0) maskData \<longrightarrow>
            (\<forall>i. i < w * h \<longrightarrow> setAlpha imageData maskData (w * h) ! (i * 4 + 3) = 0))"
proof -
  let ?out = "setAlpha imageData maskData (w * h)"
  have a: "applyMask L imageArg maskArg =
           (case sharpPng L ?out (Some w) (Some h) of
              Inl e \<Rightarrow> Inl e | Inr png \<Rightarrow> Inr (applyMaskResult L png))"
    using applyMask_decoded[OF assms(1,2,4)] by (simp add: orZero_def)
  have px: "?out ! (i * 4 + 3) = maskData ! i \<and> ?out ! (i * 4) = imageData ! (i * 4) \<and>
      ?out ! (i * 4 + 1) = imageData ! (i * 4 + 1) \<and> ?out ! (i * 4 + 2) = imageData ! (i * 4 + 2)"
    if "i < w * h" for i
    using setAlpha_pixel(1)[OF that assms(3,5)]
      setAlpha_pixel(2)[OF that assms(3,5), of 0]
      setAlpha_pixel(2)[OF that assms(3,5), of 1]
      setAlpha_pixel(2)[OF that assms(3,5), of 2]
    by simp
  have c: "?out ! (i * 4 + 3) = v" if "list_all (\<lambda>b. b = v) maskData" "i < w * h" for i v
  proof -
    have "maskData ! i \<in> set maskData" using that(2) assms(5) by simp
    with that(1) have "maskData ! i = v" by (simp add: list_all_iff)
    with px[OF that(2)] show ?thesis by simp
  qed
  show ?thesis using a px c by (simp add: length_setAlpha assms(3))
qed

theorem applyMask_alpha_witness:
  "applyMask demoLibs demoImage whiteMask =
     Inr (applyMaskResult demoLibs [1, 2, 10, 20, 30, 255, 40, 50, 60, 255]) \<and>
   applyMask demoLibs demoImage blackMask =
     Inr (applyMaskResult demoLibs [1, 2, 10, 20, 30, 0, 40, 50, 60, 0])"
proof -
  have m: "sharpMetadata demoLibs (fromBase64 demoLibs (stripPrefix demoImage)) = Inr (Some 1, Some 2)"
    by code_simp
  have r: "sharpRaw demoLibs (fromBase64 demoLibs (stripPrefix demoImage)) =
      Inr [10, 20, 30, 255, 40, 50, 60, 255]"
    by code_simp
  have l: "length [10, 20, 30, 255, 40, 50, 60, 255 :: byte] = 1 * 2 * 4" by simp
  have gw: "sharpGray demoLibs (fromBase64 demoLibs (stripPrefix whiteMask)) (Some 1) (Some 2) =
      Inr [255, 255]"
    by code_simp
  have gb: "sharpGray demoLibs (fromBase64 demoLibs (stripPrefix blackMask)) (Some 1) (Some 2) =
      Inr [0, 0]"
    by code_simp
  have lm: "length [255, 255 :: byte] = 1 * 2" "length [0, 0 :: byte] = 1 * 2" by simp_all
  have ew: "setAlpha [10, 20, 30, 255, 40, 50, 60, 255] [255, 255] (1 * 2) =
      [10, 20, 30, 255, 40, 50, 60, 255]" by code_simp
  have eb: "setAlpha [10, 20, 30, 255, 40, 50, 60, 255] [0, 0] (1 * 2) =
      [10, 20, 30, 0, 40, 50, 60, 0]" by code_simp
  have pw: "sharpPng demoLibs [10, 20, 30, 255, 40, 50, 60, 255] (Some 1) (Some 2) =
      Inr [1, 2, 10, 20, 30, 255, 40, 50, 60, 255]" by code_simp
  have pb: "sharpPng demoLibs [10, 20, 30, 0, 40, 50, 60, 0] (Some 1) (Some 2) =
      Inr [1, 2, 10, 20, 30, 0, 40, 50, 60, 0]" by code_simp
  from applyMask_alpha[OF m r l gw lm(1)] applyMask_alpha[OF m r l gb lm(2)]
  show ?thesis
    unfolding ew eb pw pb by simp
qed

text \<open>
  Claim C6, as stated, fails: the handler has no \<^verbatim>\<open>try\<close> and builds no failure
  result. For an empty image buffer the decoder's fault is the outcome of the handler.
\<close>

theorem applyMask_decode_counterexample:
  "applyMask demoLibs [] [] = Inl (JsError ''Input buffer contains unsupported image format'')"
  by code_simp

text \<open>
  Claim C6, amended. When reading the image's metadata, decoding the image or decoding
  the mask fails, the handler returns no result: its promise is rejected with the
  decoder's fault. The handler does not look at the size of the buffer: when the
  three steps succeed, its outcome is what the PNG encoder makes of the buffer, the
  width and the height.
\<close>

theorem applyMask_decode_failure:
  "(sharpMetadata L (fromBase64 L (stripPrefix imageArg)) = Inl e \<longrightarrow>
      applyMask L imageArg maskArg = Inl e) \<and>
   (\<forall>wh. sharpMetadata L (fromBase64 L (stripPrefix imageArg)) = Inr wh \<and>
         sharpRaw L (fromBase64 L (stripPrefix imageArg)) = Inl e \<longrightarrow>
      applyMask L imageArg maskArg = Inl e) \<and>
   (\<forall>width height imageData.
      sharpMetadata L (fromBase64 L (stripPrefix imageArg)) = Inr (width, height) \<and>
      sharpRaw L (fromBase64 L (stripPrefix imageArg)) = Inr imageData \<and>
      sharpGray L (fromBase64 L (stripPrefix maskArg)) width height = Inl e \<longrightarrow>
      applyMask L imageArg maskArg = Inl e) \<and>
   (\<forall>width height imageData maskData.
      sharpMetadata L (fromBase64 L (stripPrefix imageArg)) = Inr (width, height) \<and>
      sharpRaw L (fromBase64 L (stripPrefix imageArg)) = Inr imageData \<and>
      sharpGray L (fromBase64 L (stripPrefix maskArg)) width height = Inr maskData \<longrightarrow>
      applyMask L imageArg maskArg =
        (case sharpPng L (setAlpha imageData maskData (orZero width * orZero height))
                width height of
           Inl e' \<Rightarrow> Inl e'
         | Inr png \<Rightarrow> Inr (applyMaskResult L png)))"
proof (intro conjI allI impI)
  assume "sharpMetadata L (fromBase64 L (stripPrefix imageArg)) = Inl e"
  then show "applyMask L imageArg maskArg = Inl e"
    by (simp add: applyMask_def Let_def)
next
  fix wh
  assume "sharpMetadata L (fromBase64 L (stripPrefix imageArg)) = Inr wh \<and>
         sharpRaw L (fromBase64 L (stripPrefix imageArg)) = Inl e"
  then show "applyMask L imageArg maskArg = Inl e"
    by (cases wh) (simp add: applyMask_def Let_def)
next
  fix width height imageData
  assume "sharpMetadata L (fromBase64 L (stripPrefix imageArg)) = Inr (width, height) \<and>
      sharpRaw L (fromBase64 L (stripPrefix imageArg)) = Inr imageData \<and>
      sharpGray L (fromBase64 L (stripPrefix maskArg)) width height = Inl e"
  then show "applyMask L imageArg maskArg = Inl e"
    by (simp add: applyMask_def Let_def)
next
  fix width height imageData maskData
  assume "sharpMetadata L (fromBase64 L (stripPrefix imageArg)) = Inr (width, height) \<and>
      sharpRaw L (fromBase64 L (stripPrefix imageArg)) = Inr imageData \<and>
      sharpGray L (fromBase64 L (stripPrefix maskArg)) width height = Inr maskData"
  then show "applyMask L imageArg maskArg =
        (case sharpPng L (setAlpha imageData maskData (orZero width * orZero height))
                width height of
           Inl e' \<Rightarrow> Inl e'
         | Inr png \<Rightarrow> Inr (applyMaskResult L png))"
    using applyMask_decoded by blast
qed

theorem applyMask_decode_failure_witness:
  "applyMask demoLibs [] whiteMask =
     Inl (JsError ''Input buffer contains unsupported image format'') \<and>
   applyMask demoLibs demoImage truncatedMask = Inl (JsError ''Input buffer is truncated'')"
proof -
  have a: "sharpMetadata demoLibs (fromBase64 demoLibs (stripPrefix [])) =
      Inl (JsError ''Input buffer contains unsupported image format'')"
    by code_simp
  have m: "sharpMetadata demoLibs (fromBase64 demoLibs (stripPrefix demoImage)) =
      Inr (Some 1, Some 2)"
    by code_simp
  have r: "sharpRaw demoLibs (fromBase64 demoLibs (stripPrefix demoImage)) =
      Inr [10, 20, 30, 255, 40, 50, 60, 255]"
    by code_simp
  have g: "sharpGray demoLibs (fromBase64 demoLibs (stripPrefix truncatedMask)) (Some 1) (Some 2) =
      Inl (JsError ''Input buffer is truncated'')"
    by code_simp
  from applyMask_decode_failure[of demoLibs "[]"
      "JsError ''Input buffer contains unsupported image format''" whiteMask] a
  have 1: "applyMask demoLibs [] whiteMask =
     Inl (JsError ''Input buffer contains unsupported image format'')"
    by blast
  from applyMask_decode_failure[of demoLibs demoImage "JsError ''Input buffer is truncated''"
      truncatedMask] m r g
  have 2: "applyMask demoLibs demoImage truncatedMask = Inl (JsError ''Input buffer is truncated'')"
    by blast
  from 1 2 show ?thesis by simp
qed

lemma applyMask_stripPrefix:
  assumes "stripPrefix a = stripPrefix a'" "stripPrefix b = stripPrefix b'"
  shows "applyMask L a b = applyMask L a' b'"
  by (simp add: applyMask_def assms)

text \<open>
  Claim C10. For base64 payloads \<open>img\<close> and \<open>msk\<close>, apply-mask gives the same
  outcome whether or not either argument carries a prefix
  \<^verbatim>\<open>data:image/<ext>;base64,\<close> (with \<open>ext\<close> one or more word characters).
\<close>

theorem applyMask_prefix_independent:
  assumes "ext1 \<noteq> []" and "list_all isWordChar ext1"
    and "ext2 \<noteq> []" and "list_all isWordChar ext2"
    and "list_all isBase64Char img" and "list_all isBase64Char msk"
  shows "applyMask L (''data:image/'' @ ext1 @ '';base64,'' @ img)
                     (''data:image/'' @ ext2 @ '';base64,'' @ msk) = applyMask L img msk \<and>
         applyMask L (''data:image/'' @ ext1 @ '';base64,'' @ img) msk = applyMask L img msk \<and>
         applyMask L img (''data:image/'' @ ext2 @ '';base64,'' @ msk) = applyMask L img msk"
proof -
  have i: "stripPrefix (''data:image/'' @ ext1 @ '';base64,'' @ img) = stripPrefix img"
    using stripPrefix_prefixed[OF assms(1,2), of img] stripPrefix_base64[OF assms(5)] by simp
  have m: "stripPrefix (''data:image/'' @ ext2 @ '';base64,'' @ msk) = stripPrefix msk"
    using stripPrefix_prefixed[OF assms(3,4), of msk] stripPrefix_base64[OF assms(6)] by simp
  show ?thesis
    using applyMask_stripPrefix[OF i m] applyMask_stripPrefix[OF i refl]
      applyMask_stripPrefix[OF refl m]
    by blast
qed

theorem applyMask_prefix_independent_witness:
  "applyMask shiftedLibs ''data:image/png;base64,AAKUdz'' ''data:image/jpeg;base64,AAP'' =
     applyMask shiftedLibs ''AAKUdz'' ''AAP'' \<and>
   applyMask shiftedLibs ''AAKUdz'' ''AAP'' = Inr (applyMaskResult shiftedLibs [1, 1, 11, 21, 36, 16]) \<and>
   contentText (applyMaskResult shiftedLibs [1, 1, 11, 21, 36, 16]) = ''data:image/png;base64,AAKUdP''"
proof -
  have e: "''png'' \<noteq> []" "list_all isWordChar ''png''" "''jpeg'' \<noteq> []"
    "list_all isWordChar ''jpeg''" "list_all isBase64Char ''AAKUdz''" "list_all isBase64Char ''AAP''"
    by (simp_all add: isWordChar_def isBase64Char_def)
  have v: "applyMask shiftedLibs ''AAKUdz'' ''AAP'' =
      Inr (applyMaskResult shiftedLibs [1, 1, 11, 21, 36, 16])"
    by code_simp
  have c: "contentText (applyMaskResult shiftedLibs [1, 1, 11, 21, 36, 16]) =
      ''data:image/png;base64,AAKUdP''"
    by code_simp
  from applyMask_prefix_independent[OF e, of shiftedLibs] v c show ?thesis by simp
qed

end
